theory Spec2Isabelle
  imports Complex_Main "HOL-Library.AList" "HOL-Library.Sublist"
begin

section \<open>Python values as they reach \<open>app/main.py\<close>\<close>

text \<open>
  Every value handled by \<open>sanitize_answers\<close> and \<open>build_backend_payload\<close> comes out of a
  JSON decoder (\<open>json.loads\<close>, \<open>Response.json\<close>), so it is a tree of the following shape.
  A JSON object is a Python \<open>dict\<close> with string keys that remembers insertion order: an
  association list. Numbers are kept with their exact value: a Python \<open>int\<close> is unbounded,
  and a finite \<open>float\<close> is the rational it denotes (the non-standard literals \<open>NaN\<close> and
  \<open>Infinity\<close> are outside the model). Strings are lists of characters; the two string
  methods the code calls are modelled on the ASCII range.
\<close>

datatype json =
    JNull
  | JBool bool
  | JInt int
  | JFloat rat
  | JStr string
  | JList "json list"
  | JDict "(string \<times> json) list"

text \<open>The exceptions the code can meet on such values. None of them is caught in
  \<open>sanitize_answers\<close> or \<open>build_backend_payload\<close>.\<close>

datatype py_error = AttributeError | KeyError | TypeError | IndexError

text \<open>\<open>bool(x)\<close>: what \<open>if x\<close>, \<open>not x\<close> and \<open>x or y\<close> look at.\<close>

fun truthy :: "json \<Rightarrow> bool" where
  "truthy JNull = False"
| "truthy (JBool b) = b"
| "truthy (JInt i) = (i \<noteq> 0)"
| "truthy (JFloat q) = (q \<noteq> 0)"
| "truthy (JStr s) = (s \<noteq> [])"
| "truthy (JList xs) = (xs \<noteq> [])"
| "truthy (JDict kvs) = (kvs \<noteq> [])"

text \<open>Lists and dicts cannot be hashed: using one as a dict key or testing it for
  membership in a set raises \<open>TypeError\<close>.\<close>

fun hashable :: "json \<Rightarrow> bool" where
  "hashable (JList xs) = False"
| "hashable (JDict kvs) = False"
| "hashable v = True"

text \<open>Python compares numbers by value across \<open>bool\<close>, \<open>int\<close> and \<open>float\<close>:
  \<open>True == 1 == 1.0\<close>.\<close>

fun num_val :: "json \<Rightarrow> rat option" where
  "num_val (JBool b) = Some (if b then 1 else 0)"
| "num_val (JInt i) = Some (of_int i)"
| "num_val (JFloat q) = Some q"
| "num_val v = None"

text \<open>\<open>a == b\<close>, used by the code only where at least one side is a scalar (a literal, a
  dict key or a set element); there a container is equal to nothing.\<close>

definition py_eq :: "json \<Rightarrow> json \<Rightarrow> bool" where
  "py_eq a b =
     (case (num_val a, num_val b) of
        (Some x, Some y) \<Rightarrow> x = y
      | (None, None) \<Rightarrow> a = b
      | _ \<Rightarrow> False)"

subsection \<open>Strings\<close>

text \<open>\<open>str.isspace\<close> on the ASCII range: TAB, LF, VT, FF, CR, FS, GS, RS, US, space.\<close>

definition py_isspace :: "char \<Rightarrow> bool" where
  "py_isspace c = (let n = (of_char c :: nat) in (9 \<le> n \<and> n \<le> 13) \<or> (28 \<le> n \<and> n \<le> 32))"

definition py_strip :: "string \<Rightarrow> string" where
  "py_strip s = rev (dropWhile py_isspace (rev (dropWhile py_isspace s)))"

definition lower_char :: "char \<Rightarrow> char" where
  "lower_char c =
     (case map_of (zip ''ABCDEFGHIJKLMNOPQRSTUVWXYZ'' ''abcdefghijklmnopqrstuvwxyz'') c of
        None \<Rightarrow> c
      | Some l \<Rightarrow> l)"

definition py_lower :: "string \<Rightarrow> string" where
  "py_lower s = map lower_char s"

subsection \<open>Dicts\<close>

text \<open>\<open>d.get(k)\<close> and \<open>d.get(k, default)\<close> on the association list of a dict.\<close>

definition dict_get :: "(string \<times> json) list \<Rightarrow> string \<Rightarrow> json" where
  "dict_get kvs k = (case map_of kvs k of None \<Rightarrow> JNull | Some v \<Rightarrow> v)"

definition dict_get_default :: "(string \<times> json) list \<Rightarrow> string \<Rightarrow> json \<Rightarrow> json" where
  "dict_get_default kvs k d = (case map_of kvs k of None \<Rightarrow> d | Some v \<Rightarrow> v)"

text \<open>\<open>d[k] = v\<close> overwrites in place or appends; \<open>d.pop(k)\<close> removes the key.\<close>

definition dict_set :: "(string \<times> json) list \<Rightarrow> string \<Rightarrow> json \<Rightarrow> (string \<times> json) list" where
  "dict_set kvs k v = AList.update k v kvs"

definition dict_del :: "(string \<times> json) list \<Rightarrow> string \<Rightarrow> (string \<times> json) list" where
  "dict_del kvs k = AList.delete k kvs"

definition dict_has :: "(string \<times> json) list \<Rightarrow> string \<Rightarrow> bool" where
  "dict_has kvs k = (map_of kvs k \<noteq> None)"

text \<open>The same operations on a value that may not be a dict: \<open>x.get(k, d)\<close> needs the
  method (only \<open>dict\<close> has it), \<open>x[k]\<close> with a string key needs the key.\<close>

fun py_get_default :: "json \<Rightarrow> string \<Rightarrow> json \<Rightarrow> py_error + json" where
  "py_get_default (JDict kvs) k d = Inr (dict_get_default kvs k d)"
| "py_get_default v k d = Inl AttributeError"

fun py_subscript :: "json \<Rightarrow> string \<Rightarrow> py_error + json" where
  "py_subscript (JDict kvs) k = (case map_of kvs k of None \<Rightarrow> Inl KeyError | Some v \<Rightarrow> Inr v)"
| "py_subscript v k = Inl TypeError"

text \<open>\<open>x[0]\<close>: the first element of a list, the first character of a string; a dict
  decoded from JSON has no key \<open>0\<close>.\<close>

fun py_index0 :: "json \<Rightarrow> py_error + json" where
  "py_index0 (JList []) = Inl IndexError"
| "py_index0 (JList (x # xs)) = Inr x"
| "py_index0 (JStr []) = Inl IndexError"
| "py_index0 (JStr (c # cs)) = Inr (JStr [c])"
| "py_index0 (JDict kvs) = Inl KeyError"
| "py_index0 v = Inl TypeError"

text \<open>\<open>for x in v\<close>: a list yields its elements, a dict its keys, a string its
  characters; anything else is not iterable.\<close>

fun py_iter :: "json \<Rightarrow> py_error + json list" where
  "py_iter (JList xs) = Inr xs"
| "py_iter (JDict kvs) = Inr (map (\<lambda>kv. JStr (fst kv)) kvs)"
| "py_iter (JStr s) = Inr (map (\<lambda>c. JStr [c]) s)"
| "py_iter v = Inl TypeError"

section \<open>\<open>sanitize_answers\<close>\<close>

text \<open>
  \<open>mapa = {p["id"]: p for p in plantilla["preguntas"]}\<close>: a dict keyed by the question
  ids. A later question with an equal id replaces the earlier one.
\<close>

fun mapa_set :: "(json \<times> json) list \<Rightarrow> json \<Rightarrow> json \<Rightarrow> (json \<times> json) list" where
  "mapa_set [] k v = [(k, v)]"
| "mapa_set ((k', v') # m) k v = (if py_eq k' k then (k', v) # m else (k', v') # mapa_set m k v)"

fun mapa_get :: "(json \<times> json) list \<Rightarrow> json \<Rightarrow> json option" where
  "mapa_get [] k = None"
| "mapa_get ((k', v') # m) k = (if py_eq k' k then Some v' else mapa_get m k)"

fun build_mapa :: "json list \<Rightarrow> (json \<times> json) list \<Rightarrow> py_error + (json \<times> json) list" where
  "build_mapa [] mapa = Inr mapa"
| "build_mapa (p # ps) mapa =
     (case py_subscript p ''id'' of
        Inl e \<Rightarrow> Inl e
      | Inr k \<Rightarrow> if hashable k then build_mapa ps (mapa_set mapa k p) else Inl TypeError)"

text \<open>\<open>valid = {o["id"] for o in preg.get("opciones", [])}\<close> and \<open>oid in valid\<close>.\<close>

fun option_ids :: "json list \<Rightarrow> py_error + json list" where
  "option_ids [] = Inr []"
| "option_ids (opt # opts) =
     (case py_subscript opt ''id'' of
        Inl e \<Rightarrow> Inl e
      | Inr k \<Rightarrow>
          if hashable k
          then (case option_ids opts of Inl e \<Rightarrow> Inl e | Inr ks \<Rightarrow> Inr (k # ks))
          else Inl TypeError)"

definition in_valid :: "json list \<Rightarrow> json \<Rightarrow> bool" where
  "in_valid valid oid = (\<exists>k \<in> set valid. py_eq oid k)"

fun filter_valid :: "json list \<Rightarrow> json list \<Rightarrow> py_error + json list" where
  "filter_valid valid [] = Inr []"
| "filter_valid valid (oid # oids) =
     (if hashable oid
      then (case filter_valid valid oids of
              Inl e \<Rightarrow> Inl e
            | Inr r \<Rightarrow> Inr (if in_valid valid oid then oid # r else r))
      else Inl TypeError)"

text \<open>Lines 67-68: \<open>id\<close> is accepted in place of a missing or falsy \<open>pregunta_id\<close>.\<close>

definition resolve_id :: "(string \<times> json) list \<Rightarrow> (string \<times> json) list" where
  "resolve_id kvs =
     (if \<not> truthy (dict_get kvs ''pregunta_id'') \<and> truthy (dict_get kvs ''id'')
      then dict_set (dict_del kvs ''id'') ''pregunta_id'' (dict_get kvs ''id'')
      else kvs)"

text \<open>Lines 78-80, type 1: a text that repeats the question is removed.\<close>

definition sanitize_tipo1 ::
  "json \<Rightarrow> json \<Rightarrow> (string \<times> json) list \<Rightarrow> py_error + (string \<times> json) list" where
  "sanitize_tipo1 tipo preg kvs =
     (if py_eq tipo (JInt 1) \<and> truthy (dict_get kvs ''texto'')
      then (case dict_get kvs ''texto'' of
              JStr t \<Rightarrow>
                (case py_get_default preg ''texto'' (JStr []) of
                   Inl e \<Rightarrow> Inl e
                 | Inr (JStr qt) \<Rightarrow>
                     Inr (if py_lower (py_strip t) = py_lower qt
                          then dict_set kvs ''texto'' JNull else kvs)
                 | Inr _ \<Rightarrow> Inl AttributeError)
            | _ \<Rightarrow> Inl AttributeError)
      else Inr kvs)"

text \<open>Lines 83-84, type 2: a number removes the text.\<close>

definition sanitize_tipo2 :: "json \<Rightarrow> (string \<times> json) list \<Rightarrow> (string \<times> json) list" where
  "sanitize_tipo2 tipo kvs =
     (if py_eq tipo (JInt 2) \<and> dict_get kvs ''numero'' \<noteq> JNull
      then dict_set kvs ''texto'' JNull else kvs)"

text \<open>Lines 86-90, type 3: the first id of the list becomes the chosen option.\<close>

definition sanitize_tipo3 ::
  "json \<Rightarrow> (string \<times> json) list \<Rightarrow> py_error + (string \<times> json) list" where
  "sanitize_tipo3 tipo kvs =
     (if py_eq tipo (JInt 3)
      then (let kvs1 = dict_set kvs ''texto'' JNull in
            if truthy (dict_get kvs1 ''opciones_ids'')
            then (case py_index0 (dict_get kvs1 ''opciones_ids'') of
                    Inl e \<Rightarrow> Inl e
                  | Inr oid \<Rightarrow>
                      Inr (dict_set (dict_set kvs1 ''opcion_id'' oid) ''opciones_ids'' (JList [])))
            else Inr kvs1)
      else Inr kvs)"

text \<open>Line 94: the ids of the options the question declares.\<close>

definition valid_ids :: "json \<Rightarrow> py_error + json list" where
  "valid_ids preg =
     (case py_get_default preg ''opciones'' (JList []) of
        Inl e \<Rightarrow> Inl e
      | Inr opciones \<Rightarrow>
          (case py_iter opciones of
             Inl e \<Rightarrow> Inl e
           | Inr opts \<Rightarrow> option_ids opts))"

text \<open>Lines 92-95, type 4: the ids that are not options of the question are removed.\<close>

definition sanitize_tipo4 ::
  "json \<Rightarrow> json \<Rightarrow> (string \<times> json) list \<Rightarrow> py_error + (string \<times> json) list" where
  "sanitize_tipo4 tipo preg kvs =
     (if py_eq tipo (JInt 4)
      then (let kvs1 = dict_set kvs ''texto'' JNull in
            case valid_ids preg of
              Inl e \<Rightarrow> Inl e
            | Inr valid \<Rightarrow>
            (case py_iter (dict_get_default kvs1 ''opciones_ids'' (JList [])) of
              Inl e \<Rightarrow> Inl e
            | Inr oids \<Rightarrow>
            (case filter_valid valid oids of
              Inl e \<Rightarrow> Inl e
            | Inr kept \<Rightarrow> Inr (dict_set kvs1 ''opciones_ids'' (JList kept)))))
      else Inr kvs)"

text \<open>\<open>preg = mapa.get(qid) or {}\<close>; the lookup hashes \<open>qid\<close>.\<close>

definition lookup_preg :: "(json \<times> json) list \<Rightarrow> json \<Rightarrow> py_error + json" where
  "lookup_preg mapa qid =
     (if hashable qid
      then (case mapa_get mapa qid of
              None \<Rightarrow> Inr (JDict [])
            | Some p \<Rightarrow> Inr (if truthy p then p else JDict []))
      else Inl TypeError)"

text \<open>The body of the loop, lines 66-97. \<open>Inr None\<close> is the \<open>continue\<close> of line 72 (the
  entry is left out), \<open>Inr (Some r)\<close> the entry appended to \<open>dep\<close>.\<close>

definition sanitize_item :: "(json \<times> json) list \<Rightarrow> json \<Rightarrow> py_error + json option" where
  "sanitize_item mapa item =
     (case item of
        JDict kvs0 \<Rightarrow>
          (let kvs = resolve_id kvs0; qid = dict_get kvs ''pregunta_id'' in
           if \<not> truthy qid then Inr None
           else
             (let tipo = dict_get kvs ''tipo_pregunta_id'' in
              case lookup_preg mapa qid of
                Inl e \<Rightarrow> Inl e
              | Inr preg \<Rightarrow>
              (case sanitize_tipo1 tipo preg kvs of
                Inl e \<Rightarrow> Inl e
              | Inr kvs1 \<Rightarrow>
              (case sanitize_tipo3 tipo (sanitize_tipo2 tipo kvs1) of
                Inl e \<Rightarrow> Inl e
              | Inr kvs3 \<Rightarrow>
              (case sanitize_tipo4 tipo preg kvs3 of
                Inl e \<Rightarrow> Inl e
              | Inr kvs4 \<Rightarrow> Inr (Some (JDict kvs4)))))))
      | _ \<Rightarrow> Inl AttributeError)"

fun sanitize_loop :: "(json \<times> json) list \<Rightarrow> json list \<Rightarrow> json list \<Rightarrow> py_error + json list" where
  "sanitize_loop mapa [] dep = Inr dep"
| "sanitize_loop mapa (item # items) dep =
     (case sanitize_item mapa item of
        Inl e \<Rightarrow> Inl e
      | Inr None \<Rightarrow> sanitize_loop mapa items dep
      | Inr (Some r) \<Rightarrow> sanitize_loop mapa items (dep @ [r]))"

definition sanitize_answers :: "json \<Rightarrow> json \<Rightarrow> py_error + json" where
  "sanitize_answers data plantilla =
     (case py_subscript plantilla ''preguntas'' of
        Inl e \<Rightarrow> Inl e
      | Inr pregs \<Rightarrow>
     (case py_iter pregs of
        Inl e \<Rightarrow> Inl e
      | Inr ps \<Rightarrow>
     (case build_mapa ps [] of
        Inl e \<Rightarrow> Inl e
      | Inr mapa \<Rightarrow>
     (case py_get_default data ''respuestas_preguntas'' (JList []) of
        Inl e \<Rightarrow> Inl e
      | Inr rp \<Rightarrow>
     (case py_iter rp of
        Inl e \<Rightarrow> Inl e
      | Inr items \<Rightarrow>
     (case sanitize_loop mapa items [] of
        Inl e \<Rightarrow> Inl e
      | Inr dep \<Rightarrow>
     (case data of
        JDict kvs \<Rightarrow> Inr (JDict (dict_set kvs ''respuestas_preguntas'' (JList dep)))
      | _ \<Rightarrow> Inl TypeError)))))))"

section \<open>\<open>build_backend_payload\<close>\<close>

text \<open>Lines 105-112: the base row of one answer, \<open>qid\<close> being \<open>r["pregunta_id"]\<close>.
  \<open>x not in (None, "")\<close> compares \<open>x\<close> with each element of the tuple.\<close>

definition base_row :: "(string \<times> json) list \<Rightarrow> json \<Rightarrow> (string \<times> json) list" where
  "base_row r qid =
     (let base0 = [(''pregunta_id'', qid)];
          base1 = (if truthy (dict_get r ''texto'')
                   then dict_set base0 ''texto'' (dict_get r ''texto'') else base0);
          base2 = (if \<not> (py_eq (dict_get r ''numero'') JNull \<or> py_eq (dict_get r ''numero'') (JStr []))
                   then dict_set base1 ''numero'' (dict_get r ''numero'') else base1)
      in if truthy (dict_get r ''opcion_id'')
         then dict_set base2 ''opcion_id'' (dict_get r ''opcion_id'') else base2)"

text \<open>Lines 105-118: the rows appended to \<open>filas\<close> for one answer. \<open>{**base, "opcion_id": oid}\<close>
  is a copy of \<open>base\<close> with that one key set.\<close>

definition payload_rows :: "json \<Rightarrow> py_error + json list" where
  "payload_rows r =
     (case py_subscript r ''pregunta_id'' of
        Inl e \<Rightarrow> Inl e
      | Inr qid \<Rightarrow>
          (case r of
             JDict kvs \<Rightarrow>
               (let base = base_row kvs qid in
                if truthy (dict_get kvs ''opciones_ids'')
                then (case py_iter (dict_get kvs ''opciones_ids'') of
                        Inl e \<Rightarrow> Inl e
                      | Inr oids \<Rightarrow> Inr (map (\<lambda>oid. JDict (dict_set base ''opcion_id'' oid)) oids))
                else Inr [JDict base])
           | _ \<Rightarrow> Inl AttributeError))"

fun build_loop :: "json list \<Rightarrow> json list \<Rightarrow> py_error + json list" where
  "build_loop [] filas = Inr filas"
| "build_loop (r # rs) filas =
     (case payload_rows r of
        Inl e \<Rightarrow> Inl e
      | Inr rows \<Rightarrow> build_loop rs (filas @ rows))"

definition build_backend_payload :: "json \<Rightarrow> py_error + json" where
  "build_backend_payload res_json =
     (case py_get_default res_json ''respuestas_preguntas'' (JList []) of
        Inl e \<Rightarrow> Inl e
      | Inr rp \<Rightarrow>
     (case py_iter rp of
        Inl e \<Rightarrow> Inl e
      | Inr rs \<Rightarrow>
     (case build_loop rs [] of
        Inl e \<Rightarrow> Inl e
      | Inr filas \<Rightarrow> Inr (JDict [(''respuestas_preguntas'', JList filas)]))))"

section \<open>\<open>POST /stt\<close>\<close>

subsection \<open>\<open>uuid.UUID(entrega_id)\<close>\<close>










subsection \<open>The handler\<close>










section \<open>What the properties are stated with\<close>

text \<open>The list of answers inside the value that \<open>sanitize_answers\<close> returns, and what
  lines 78-95 leave behind in an entry, by its type tag: the text is \<open>None\<close> for type 2
  with a number, for type 3 and for type 4; the id list is empty for type 3 and a list of
  hashable ids for type 4. \<open>numero\<close> is never written, \<open>opcion_id\<close> only for type 3 with
  a non-empty list.\<close>

definition answers_of :: "json \<Rightarrow> json list" where
  "answers_of out =
     (case out of
        JDict kvs \<Rightarrow> (case dict_get kvs ''respuestas_preguntas'' of JList rs \<Rightarrow> rs | _ \<Rightarrow> [])
      | _ \<Rightarrow> [])"



text \<open>
  The shape of input the code is written for. A question is an object with a hashable
  \<open>id\<close>, a string \<open>texto\<close> if it has one, and a list \<open>opciones\<close> of objects with a
  hashable \<open>id\<close> if it has one. An answer is an object whose \<open>pregunta_id\<close> and \<open>id\<close>
  are scalars, whose \<open>texto\<close> is a string, null or missing, and whose \<open>opciones_ids\<close> is
  a list of scalars, or missing, or (unless the answer is tagged type 4) null.
  \<open>resolves\<close> holds of the entries that line 72 does not skip: objects with a truthy
  \<open>pregunta_id\<close>, or failing that a truthy \<open>id\<close>.
\<close>

definition wf_option :: "json \<Rightarrow> bool" where
  "wf_option opt =
     (case opt of
        JDict kvs \<Rightarrow> dict_has kvs ''id'' \<and> hashable (dict_get kvs ''id'')
      | _ \<Rightarrow> False)"

definition wf_preg :: "json \<Rightarrow> bool" where
  "wf_preg p =
     (case p of
        JDict kvs \<Rightarrow>
          (case dict_get_default kvs ''texto'' (JStr []) of JStr qt \<Rightarrow> True | _ \<Rightarrow> False)
        \<and> (case dict_get_default kvs ''opciones'' (JList []) of
              JList opts \<Rightarrow> list_all wf_option opts
            | _ \<Rightarrow> False)
      | _ \<Rightarrow> False)"

definition wf_question :: "json \<Rightarrow> bool" where
  "wf_question p = (wf_option p \<and> wf_preg p)"

definition wf_plantilla :: "json \<Rightarrow> bool" where
  "wf_plantilla plantilla =
     (case plantilla of
        JDict kvs \<Rightarrow>
          (case map_of kvs ''preguntas'' of
             Some (JList ps) \<Rightarrow> list_all wf_question ps
           | _ \<Rightarrow> False)
      | _ \<Rightarrow> False)"

definition wf_answer :: "json \<Rightarrow> bool" where
  "wf_answer item =
     (case item of
        JDict kvs \<Rightarrow>
          hashable (dict_get kvs ''pregunta_id'')
        \<and> hashable (dict_get kvs ''id'')
        \<and> (case dict_get kvs ''texto'' of JNull \<Rightarrow> True | JStr t \<Rightarrow> True | _ \<Rightarrow> False)
        \<and> (case dict_get_default kvs ''opciones_ids'' (JList []) of
              JList oids \<Rightarrow> list_all hashable oids
            | JNull \<Rightarrow> \<not> py_eq (dict_get kvs ''tipo_pregunta_id'') (JInt 4)
            | _ \<Rightarrow> False)
      | _ \<Rightarrow> False)"

definition wf_data :: "json \<Rightarrow> bool" where
  "wf_data data =
     (case data of
        JDict kvs \<Rightarrow>
          (case dict_get_default kvs ''respuestas_preguntas'' (JList []) of
             JList items \<Rightarrow> list_all wf_answer items
           | _ \<Rightarrow> False)
      | _ \<Rightarrow> False)"

definition resolves :: "json \<Rightarrow> bool" where
  "resolves item =
     (case item of
        JDict kvs \<Rightarrow> truthy (dict_get (resolve_id kvs) ''pregunta_id'')
      | _ \<Rightarrow> False)"

section \<open>A sample template and sample answers\<close>

text \<open>Four questions: a free-text one, a numeric one and two with the options \<open>A\<close> and
  \<open>B\<close>. \<open>ex_mapa\<close> is the \<open>mapa\<close> that line 63 builds from them.\<close>

definition ex_q1 :: json where
  "ex_q1 = JDict [(''id'', JStr ''q1''), (''texto'', JStr ''Nombre?'')]"

definition ex_q2 :: json where
  "ex_q2 = JDict [(''id'', JStr ''q2''), (''texto'', JStr ''Edad'')]"

definition ex_q3 :: json where
  "ex_q3 = JDict [(''id'', JStr ''q3''), (''texto'', JStr ''Color''),
                  (''opciones'', JList [JDict [(''id'', JStr ''A'')], JDict [(''id'', JStr ''B'')]])]"

definition ex_q4 :: json where
  "ex_q4 = JDict [(''id'', JStr ''q4''), (''texto'', JStr ''Frutas''),
                  (''opciones'', JList [JDict [(''id'', JStr ''A'')], JDict [(''id'', JStr ''B'')]])]"

definition ex_plantilla :: json where
  "ex_plantilla = JDict [(''preguntas'', JList [ex_q1, ex_q2, ex_q3, ex_q4])]"

definition ex_mapa :: "(json \<times> json) list" where
  "ex_mapa = [(JStr ''q1'', ex_q1), (JStr ''q2'', ex_q2), (JStr ''q3'', ex_q3), (JStr ''q4'', ex_q4)]"

definition ex_echo :: "(string \<times> json) list" where
  "ex_echo = [(''id'', JStr ''q1''), (''tipo_pregunta_id'', JInt 1), (''texto'', JStr ''  NOMBRE? '')]"

definition ex_multi :: "(string \<times> json) list" where
  "ex_multi = [(''pregunta_id'', JStr ''q4''), (''tipo_pregunta_id'', JInt 4), (''texto'', JStr ''x''),
               (''opciones_ids'', JList [JStr ''B'', JStr ''Z'', JStr ''A''])]"


definition ex_single :: "(string \<times> json) list" where
  "ex_single = [(''pregunta_id'', JStr ''q3''), (''tipo_pregunta_id'', JInt 3), (''texto'', JStr ''x''),
                (''opciones_ids'', JList [JStr ''Z'', JStr ''A''])]"

definition ex_single_direct :: "(string \<times> json) list" where
  "ex_single_direct = [(''pregunta_id'', JStr ''q3''), (''tipo_pregunta_id'', JInt 3),
                       (''opcion_id'', JStr ''B''), (''opciones_ids'', JList [])]"

definition ex_numeric :: "(string \<times> json) list" where
  "ex_numeric = [(''pregunta_id'', JStr ''q2''), (''tipo_pregunta_id'', JInt 2), (''texto'', JStr ''cinco''),
                 (''numero'', JInt 5), (''opcion_id'', JStr ''A''), (''opciones_ids'', JList [])]"


definition ex_data :: json where
  "ex_data = JDict [(''respuestas_preguntas'',
       JList [JDict ex_echo, JDict ex_numeric, JDict ex_single, JDict ex_multi,
              JDict [(''texto'', JStr ''sin pregunta'')]])]"


definition ex_multi_none :: "(string \<times> json) list" where
  "ex_multi_none = [(''pregunta_id'', JStr ''q4''), (''tipo_pregunta_id'', JInt 4),
                    (''opciones_ids'', JList [JStr ''Z''])]"

definition ex_multi_none_out :: "(string \<times> json) list" where
  "ex_multi_none_out = [(''pregunta_id'', JStr ''q4''), (''tipo_pregunta_id'', JInt 4),
                        (''opciones_ids'', JList []), (''texto'', JNull)]"










section \<open>Properties of the sanitizer\<close>

subsection \<open>Dict lemmas\<close>

lemma dict_get_set: "dict_get (dict_set kvs k v) k' = (if k' = k then v else dict_get kvs k')"
  by (simp add: dict_get_def dict_set_def update_conv')

lemma dict_get_del: "dict_get (dict_del kvs k) k' = (if k' = k then JNull else dict_get kvs k')"
  by (simp add: dict_get_def dict_del_def delete_conv')

lemma dict_get_default_set:
  "dict_get_default (dict_set kvs k v) k' d = (if k' = k then v else dict_get_default kvs k' d)"
  by (simp add: dict_get_default_def dict_set_def update_conv')

lemma map_of_resolve_id:
  "k \<noteq> ''pregunta_id'' \<Longrightarrow> k \<noteq> ''id'' \<Longrightarrow> map_of (resolve_id kvs) k = map_of kvs k"
  by (simp add: resolve_id_def dict_set_def dict_del_def update_conv' delete_conv')

lemma dict_get_resolve_id:
  "k \<noteq> ''pregunta_id'' \<Longrightarrow> k \<noteq> ''id'' \<Longrightarrow> dict_get (resolve_id kvs) k = dict_get kvs k"
  by (simp add: dict_get_def map_of_resolve_id)

lemma dict_get_default_resolve_id:
  "k \<noteq> ''pregunta_id'' \<Longrightarrow> k \<noteq> ''id'' \<Longrightarrow>
   dict_get_default (resolve_id kvs) k d = dict_get_default kvs k d"
  by (simp add: dict_get_default_def map_of_resolve_id)



lemma py_eq_distinct_tipo:
  "py_eq t (JInt 1) \<Longrightarrow> \<not> py_eq t (JInt 2) \<and> \<not> py_eq t (JInt 3) \<and> \<not> py_eq t (JInt 4)"
  "py_eq t (JInt 2) \<Longrightarrow> \<not> py_eq t (JInt 1) \<and> \<not> py_eq t (JInt 3) \<and> \<not> py_eq t (JInt 4)"
  "py_eq t (JInt 3) \<Longrightarrow> \<not> py_eq t (JInt 1) \<and> \<not> py_eq t (JInt 2) \<and> \<not> py_eq t (JInt 4)"
  "py_eq t (JInt 4) \<Longrightarrow> \<not> py_eq t (JInt 1) \<and> \<not> py_eq t (JInt 2) \<and> \<not> py_eq t (JInt 3)"
  by (auto simp: py_eq_def split: option.splits)

lemma sanitize_item_steps:
  assumes "sanitize_item mapa (JDict kvs0) = Inr (Some r)"
  obtains preg kvs1 kvs3 kvs4 where
    "truthy (dict_get (resolve_id kvs0) ''pregunta_id'')"
    "lookup_preg mapa (dict_get (resolve_id kvs0) ''pregunta_id'') = Inr preg"
    "sanitize_tipo1 (dict_get kvs0 ''tipo_pregunta_id'') preg (resolve_id kvs0) = Inr kvs1"
    "sanitize_tipo3 (dict_get kvs0 ''tipo_pregunta_id'')
       (sanitize_tipo2 (dict_get kvs0 ''tipo_pregunta_id'') kvs1) = Inr kvs3"
    "sanitize_tipo4 (dict_get kvs0 ''tipo_pregunta_id'') preg kvs3 = Inr kvs4"
    "r = JDict kvs4"
proof -
  have t: "dict_get (resolve_id kvs0) ''tipo_pregunta_id'' = dict_get kvs0 ''tipo_pregunta_id''"
    by (simp add: dict_get_resolve_id)
  from assms that show thesis
    by (auto simp: sanitize_item_def Let_def t split: if_splits sum.splits)
qed


subsection \<open>Free text\<close>





subsection \<open>Single choice\<close>

text \<open>
  C5, as the code has it. For an answer tagged as type 3 whose \<open>opciones_ids\<close> is a list:
  the text is \<open>None\<close> and the list comes out empty; when the list has at least one id,
  \<open>opcion_id\<close> is its first element; when the list is empty, \<open>opcion_id\<close> is left as
  the answer supplied it, so no single-choice id is set only if none was supplied.
\<close>

theorem single_choice_takes_first:
  assumes run: "sanitize_item mapa (JDict kvs0) = Inr (Some r)"
    and tipo: "py_eq (dict_get kvs0 ''tipo_pregunta_id'') (JInt 3)"
    and inp: "dict_get kvs0 ''opciones_ids'' = JList oids"
  shows "\<exists>kvs. r = JDict kvs
             \<and> dict_get kvs ''texto'' = JNull
             \<and> dict_get kvs ''opciones_ids'' = JList []
             \<and> dict_get kvs ''opcion_id'' =
                 (case oids of [] \<Rightarrow> dict_get kvs0 ''opcion_id'' | oid # rest \<Rightarrow> oid)"
proof -
  note nt = py_eq_distinct_tipo(3)[OF tipo]
  from run obtain preg kvs1 kvs3 kvs4 where
    s1: "sanitize_tipo1 (dict_get kvs0 ''tipo_pregunta_id'') preg (resolve_id kvs0) = Inr kvs1"
    and s3: "sanitize_tipo3 (dict_get kvs0 ''tipo_pregunta_id'')
               (sanitize_tipo2 (dict_get kvs0 ''tipo_pregunta_id'') kvs1) = Inr kvs3"
    and s4: "sanitize_tipo4 (dict_get kvs0 ''tipo_pregunta_id'') preg kvs3 = Inr kvs4"
    and r: "r = JDict kvs4"
    by (rule sanitize_item_steps)
  from s1 nt have k1: "kvs1 = resolve_id kvs0" by (simp add: sanitize_tipo1_def)
  from s4 nt have k4: "kvs4 = kvs3" by (simp add: sanitize_tipo4_def)
  have "dict_get kvs3 ''texto'' = JNull \<and> dict_get kvs3 ''opciones_ids'' = JList []
      \<and> dict_get kvs3 ''opcion_id'' =
          (case oids of [] \<Rightarrow> dict_get kvs0 ''opcion_id'' | oid # rest \<Rightarrow> oid)"
    using s3 tipo nt inp
    by (cases oids)
       (auto simp: sanitize_tipo3_def sanitize_tipo2_def k1 Let_def dict_get_set
                   dict_get_resolve_id split: if_splits sum.splits)
  then show ?thesis using r k4 by simp
qed


theorem single_choice_takes_first_witness:
  "sanitize_item ex_mapa (JDict ex_single) =
     Inr (Some (JDict [(''pregunta_id'', JStr ''q3''), (''tipo_pregunta_id'', JInt 3),
                       (''texto'', JNull), (''opciones_ids'', JList []), (''opcion_id'', JStr ''Z'')]))
   \<and> (\<exists>kvs. JDict [(''pregunta_id'', JStr ''q3''), (''tipo_pregunta_id'', JInt 3),
                    (''texto'', JNull), (''opciones_ids'', JList []), (''opcion_id'', JStr ''Z'')] = JDict kvs
          \<and> dict_get kvs ''texto'' = JNull
          \<and> dict_get kvs ''opciones_ids'' = JList []
          \<and> dict_get kvs ''opcion_id'' = JStr ''Z'')"
proof -
  have run: "sanitize_item ex_mapa (JDict ex_single) =
     Inr (Some (JDict [(''pregunta_id'', JStr ''q3''), (''tipo_pregunta_id'', JInt 3),
                       (''texto'', JNull), (''opciones_ids'', JList []), (''opcion_id'', JStr ''Z'')]))"
    by code_simp
  have tipo: "py_eq (dict_get ex_single ''tipo_pregunta_id'') (JInt 3)"
    by code_simp
  have inp: "dict_get ex_single ''opciones_ids'' = JList [JStr ''Z'', JStr ''A'']"
    by code_simp
  from single_choice_takes_first [OF run tipo inp] run
  show ?thesis by simp
qed

text \<open>The claim as the specification states it fails when the list is empty and the
  answer carries its choice in \<open>opcion_id\<close>, which is what the prompt of line 149 asks the
  language model for: the id stays set.\<close>

theorem single_choice_empty_list_counterexample:
  "py_eq (dict_get ex_single_direct ''tipo_pregunta_id'') (JInt 3)
   \<and> dict_get ex_single_direct ''opciones_ids'' = JList []
   \<and> sanitize_item ex_mapa (JDict ex_single_direct) =
       Inr (Some (JDict [(''pregunta_id'', JStr ''q3''), (''tipo_pregunta_id'', JInt 3),
                         (''opcion_id'', JStr ''B''), (''opciones_ids'', JList []), (''texto'', JNull)]))
   \<and> dict_get [(''pregunta_id'', JStr ''q3''), (''tipo_pregunta_id'', JInt 3),
                (''opcion_id'', JStr ''B''), (''opciones_ids'', JList []), (''texto'', JNull)]
         ''opcion_id'' = JStr ''B''"
  by code_simp

text \<open>
  C10. For an answer tagged as type 3 the template plays no part: the sanitizer gives the
  same entry whatever the \<open>mapa\<close>. The first element of a non-empty \<open>opciones_ids\<close> list
  becomes \<open>opcion_id\<close>, and with an empty, null or missing list the supplied \<open>opcion_id\<close>
  is kept as it is. (For type 4 the ids that the question does not declare are removed,
  see C6.)
\<close>

theorem single_choice_not_validated:
  assumes run: "sanitize_item mapa (JDict kvs0) = Inr (Some r)"
    and tipo: "py_eq (dict_get kvs0 ''tipo_pregunta_id'') (JInt 3)"
  shows "sanitize_item mapa' (JDict kvs0) = Inr (Some r)
       \<and> (\<forall>oid rest. dict_get kvs0 ''opciones_ids'' = JList (oid # rest) \<longrightarrow>
            (\<exists>kvs. r = JDict kvs \<and> dict_get kvs ''opcion_id'' = oid))
       \<and> (\<not> truthy (dict_get kvs0 ''opciones_ids'') \<longrightarrow>
            (\<exists>kvs. r = JDict kvs \<and> dict_get kvs ''opcion_id'' = dict_get kvs0 ''opcion_id''))"
proof -
  note nt = py_eq_distinct_tipo(3)[OF tipo]
  let ?tipo = "dict_get kvs0 ''tipo_pregunta_id''"
  let ?qid = "dict_get (resolve_id kvs0) ''pregunta_id''"
  from run obtain preg kvs1 kvs3 kvs4 where
    q: "truthy ?qid"
    and lk: "lookup_preg mapa ?qid = Inr preg"
    and s1: "sanitize_tipo1 ?tipo preg (resolve_id kvs0) = Inr kvs1"
    and s3: "sanitize_tipo3 ?tipo (sanitize_tipo2 ?tipo kvs1) = Inr kvs3"
    and s4: "sanitize_tipo4 ?tipo preg kvs3 = Inr kvs4"
    and r: "r = JDict kvs4"
    by (rule sanitize_item_steps)
  from s1 nt have k1: "kvs1 = resolve_id kvs0" by (simp add: sanitize_tipo1_def)
  from s4 nt have k4: "kvs4 = kvs3" by (simp add: sanitize_tipo4_def)
  from lk have h: "hashable ?qid" by (auto simp: lookup_preg_def split: if_splits)
  then obtain preg' where lk': "lookup_preg mapa' ?qid = Inr preg'"
    by (cases "mapa_get mapa' ?qid") (auto simp: lookup_preg_def)
  have s1': "sanitize_tipo1 ?tipo preg' (resolve_id kvs0) = Inr kvs1"
    using nt by (simp add: sanitize_tipo1_def k1)
  have s4': "sanitize_tipo4 ?tipo preg' kvs3 = Inr kvs4"
    using nt by (simp add: sanitize_tipo4_def k4)
  have t: "dict_get (resolve_id kvs0) ''tipo_pregunta_id'' = ?tipo"
    by (simp add: dict_get_resolve_id)
  have indep: "sanitize_item mapa' (JDict kvs0) = Inr (Some r)"
    using q lk' s1' s3 s4' r by (simp add: sanitize_item_def Let_def t)
  have first: "dict_get kvs3 ''opcion_id'' = oid"
    if "dict_get kvs0 ''opciones_ids'' = JList (oid # rest)" for oid rest
    using s3 tipo that
    by (auto simp: sanitize_tipo3_def sanitize_tipo2_def k1 Let_def dict_get_set
                   dict_get_resolve_id split: if_splits)
  have direct: "dict_get kvs3 ''opcion_id'' = dict_get kvs0 ''opcion_id''"
    if "\<not> truthy (dict_get kvs0 ''opciones_ids'')"
    using s3 tipo nt that
    by (auto simp: sanitize_tipo3_def sanitize_tipo2_def k1 Let_def dict_get_set
                   dict_get_resolve_id split: if_splits)
  show ?thesis using indep first direct r k4 by auto
qed


theorem single_choice_not_validated_witness:
  "sanitize_item [] (JDict ex_single) = sanitize_item ex_mapa (JDict ex_single)
   \<and> valid_ids ex_q3 = Inr [JStr ''A'', JStr ''B'']
   \<and> \<not> in_valid [JStr ''A'', JStr ''B''] (JStr ''Z'')
   \<and> (\<exists>kvs. sanitize_item ex_mapa (JDict ex_single) = Inr (Some (JDict kvs))
            \<and> dict_get kvs ''opcion_id'' = JStr ''Z'')"
proof -
  have run: "sanitize_item ex_mapa (JDict ex_single) =
     Inr (Some (JDict [(''pregunta_id'', JStr ''q3''), (''tipo_pregunta_id'', JInt 3),
                       (''texto'', JNull), (''opciones_ids'', JList []), (''opcion_id'', JStr ''Z'')]))"
    by code_simp
  have tipo: "py_eq (dict_get ex_single ''tipo_pregunta_id'') (JInt 3)"
    by code_simp
  have inp: "dict_get ex_single ''opciones_ids'' = JList [JStr ''Z'', JStr ''A'']"
    by code_simp
  have v: "valid_ids ex_q3 = Inr [JStr ''A'', JStr ''B'']"
    by code_simp
  have z: "\<not> in_valid [JStr ''A'', JStr ''B''] (JStr ''Z'')"
    by code_simp
  from single_choice_not_validated [OF run tipo, of "[]"] run inp v z
  show ?thesis by simp
qed

subsection \<open>Multiple choice\<close>






subsection \<open>What the sanitizer clears\<close>

lemma sanitize_tipo1_keeps:
  "sanitize_tipo1 t preg kvs = Inr kvs' \<Longrightarrow> k \<noteq> ''texto'' \<Longrightarrow> dict_get kvs' k = dict_get kvs k"
  by (auto simp: sanitize_tipo1_def dict_get_set split: if_splits json.splits sum.splits)

lemma sanitize_tipo2_keeps:
  "k \<noteq> ''texto'' \<Longrightarrow> dict_get (sanitize_tipo2 t kvs) k = dict_get kvs k"
  by (simp add: sanitize_tipo2_def dict_get_set)


lemma sanitize_tipo3_keeps:
  "sanitize_tipo3 t kvs = Inr kvs' \<Longrightarrow>
   k \<noteq> ''texto'' \<Longrightarrow> k \<noteq> ''opcion_id'' \<Longrightarrow> k \<noteq> ''opciones_ids'' \<Longrightarrow>
   dict_get kvs' k = dict_get kvs k"
  by (auto simp: sanitize_tipo3_def Let_def dict_get_set split: if_splits sum.splits)

lemma sanitize_tipo3_other:
  "sanitize_tipo3 t kvs = Inr kvs' \<Longrightarrow> \<not> py_eq t (JInt 3) \<Longrightarrow> kvs' = kvs"
  by (simp add: sanitize_tipo3_def)


lemma sanitize_tipo4_keeps:
  "sanitize_tipo4 t preg kvs = Inr kvs' \<Longrightarrow>
   k \<noteq> ''texto'' \<Longrightarrow> k \<noteq> ''opciones_ids'' \<Longrightarrow> dict_get kvs' k = dict_get kvs k"
  by (auto simp: sanitize_tipo4_def Let_def dict_get_set split: if_splits sum.splits)


lemma filter_valid_hashable: "filter_valid valid oids = Inr kept \<Longrightarrow> list_all hashable kept"
  by (induction oids arbitrary: kept) (auto split: if_splits sum.splits)

lemma sanitize_tipo4_clears:
  "sanitize_tipo4 t preg kvs = Inr kvs' \<Longrightarrow> py_eq t (JInt 4) \<Longrightarrow>
   dict_get kvs' ''texto'' = JNull
   \<and> (\<exists>ids. dict_get kvs' ''opciones_ids'' = JList ids \<and> list_all hashable ids)"
  by (auto simp: sanitize_tipo4_def Let_def dict_get_set filter_valid_hashable
           split: if_splits sum.splits)




lemma sanitize_answers_out:
  assumes "sanitize_answers data plantilla = Inr out"
  obtains pregs ps mapa kvs items dep where
    "py_subscript plantilla ''preguntas'' = Inr pregs"
    "py_iter pregs = Inr ps"
    "build_mapa ps [] = Inr mapa"
    "data = JDict kvs"
    "py_iter (dict_get_default kvs ''respuestas_preguntas'' (JList [])) = Inr items"
    "sanitize_loop mapa items [] = Inr dep"
    "out = JDict (dict_set kvs ''respuestas_preguntas'' (JList dep))"
  using assms
  by (cases data) (auto simp: sanitize_answers_def split: sum.splits)

lemma answers_of_set:
  "answers_of (JDict (dict_set kvs ''respuestas_preguntas'' (JList dep))) = dep"
  by (simp add: answers_of_def dict_get_set)


text \<open>The entries of the returned list are, in order, the results of the loop body on the
  input entries that were not skipped.\<close>

lemma sanitize_loop_entries:
  "sanitize_loop mapa items dep = Inr out \<Longrightarrow>
   \<exists>rs. map (sanitize_item mapa) items = map Inr rs \<and> out = dep @ List.map_filter id rs"
proof (induction items arbitrary: dep)
  case Nil
  then show ?case by (simp add: List.map_filter_simps)
next
  case (Cons item items)
  from Cons.prems obtain res where res: "sanitize_item mapa item = Inr res"
    by (cases "sanitize_item mapa item") auto
  show ?case
  proof (cases res)
    case None
    with Cons.prems res have "sanitize_loop mapa items dep = Inr out" by simp
    from Cons.IH[OF this] obtain rs where
      "map (sanitize_item mapa) items = map Inr rs" "out = dep @ List.map_filter id rs" by blast
    with res None have "map (sanitize_item mapa) (item # items) = map Inr (None # rs)
        \<and> out = dep @ List.map_filter id (None # rs)"
      by (simp add: List.map_filter_simps)
    then show ?thesis by blast
  next
    case (Some r)
    with Cons.prems res have "sanitize_loop mapa items (dep @ [r]) = Inr out" by simp
    from Cons.IH[OF this] obtain rs where
      "map (sanitize_item mapa) items = map Inr rs" "out = (dep @ [r]) @ List.map_filter id rs" by blast
    with res Some have "map (sanitize_item mapa) (item # items) = map Inr (Some r # rs)
        \<and> out = dep @ List.map_filter id (Some r # rs)"
      by (simp add: List.map_filter_simps)
    then show ?thesis by blast
  qed
qed

lemma sanitize_answers_entries:
  assumes "sanitize_answers data plantilla = Inr out"
  shows "\<exists>ps mapa items rs.
           py_iter (case py_subscript plantilla ''preguntas'' of Inr pregs \<Rightarrow> pregs | Inl e \<Rightarrow> JNull) = Inr ps
         \<and> build_mapa ps [] = Inr mapa
         \<and> (case py_get_default data ''respuestas_preguntas'' (JList []) of
               Inr rp \<Rightarrow> py_iter rp | Inl e \<Rightarrow> Inl e) = Inr items
         \<and> map (sanitize_item mapa) items = map Inr rs
         \<and> answers_of out = List.map_filter id rs"
proof -
  from assms obtain pregs ps mapa kvs items dep where
    "py_subscript plantilla ''preguntas'' = Inr pregs"
    "py_iter pregs = Inr ps"
    "build_mapa ps [] = Inr mapa"
    "data = JDict kvs"
    "py_iter (dict_get_default kvs ''respuestas_preguntas'' (JList [])) = Inr items"
    and loop: "sanitize_loop mapa items [] = Inr dep"
    and out: "out = JDict (dict_set kvs ''respuestas_preguntas'' (JList dep))"
    by (rule sanitize_answers_out)
  moreover from sanitize_loop_entries[OF loop] obtain rs where
    "map (sanitize_item mapa) items = map Inr rs" "dep = List.map_filter id rs" by auto
  ultimately show ?thesis by (auto simp: answers_of_set)
qed





subsection \<open>When the sanitizer returns\<close>

lemma mapa_set_values: "q \<in> snd ` set (mapa_set m k v) \<Longrightarrow> q = v \<or> q \<in> snd ` set m"
  by (induction m) (force split: if_splits)+

lemma mapa_get_value: "mapa_get m k = Some p \<Longrightarrow> p \<in> snd ` set m"
  by (induction m) (auto split: if_splits)

lemma build_mapa_wf:
  "list_all wf_question ps \<Longrightarrow> \<forall>p \<in> snd ` set mapa. wf_question p \<Longrightarrow>
   \<exists>m. build_mapa ps mapa = Inr m \<and> (\<forall>p \<in> snd ` set m. wf_question p)"
proof (induction ps arbitrary: mapa)
  case Nil
  then show ?case by simp
next
  case (Cons p ps)
  from Cons.prems(1) have wp: "wf_question p" and wps: "list_all wf_question ps" by simp_all
  from wp obtain kvs v where p: "p = JDict kvs" and v: "map_of kvs ''id'' = Some v"
    and h: "hashable v"
    by (auto simp: wf_question_def wf_option_def dict_has_def dict_get_def split: json.splits)
  have "\<forall>q \<in> snd ` set (mapa_set mapa v p). wf_question q"
    using mapa_set_values[of _ mapa v p] wp Cons.prems(2) by blast
  from Cons.IH[OF wps this] show ?case using p v h by simp
qed

lemma lookup_preg_wf:
  assumes "hashable qid" and "\<forall>p \<in> snd ` set mapa. wf_question p"
  shows "\<exists>preg. lookup_preg mapa qid = Inr preg \<and> wf_preg preg"
proof (cases "mapa_get mapa qid")
  case None
  then show ?thesis using assms(1)
    by (simp add: lookup_preg_def wf_preg_def dict_get_default_def)
next
  case (Some p)
  then have "wf_question p" using assms(2) mapa_get_value by blast
  then have "wf_preg p" by (simp add: wf_question_def)
  moreover have "wf_preg (JDict [])" by (simp add: wf_preg_def dict_get_default_def)
  ultimately show ?thesis using Some assms(1) by (simp add: lookup_preg_def)
qed

lemma option_ids_ok: "list_all wf_option opts \<Longrightarrow> \<exists>ids. option_ids opts = Inr ids"
proof (induction opts)
  case Nil
  then show ?case by simp
next
  case (Cons opt opts)
  from Cons.prems have "wf_option opt" by simp
  then obtain kvs v where "opt = JDict kvs" "map_of kvs ''id'' = Some v" "hashable v"
    by (auto simp: wf_option_def dict_has_def dict_get_def split: json.splits)
  moreover from Cons obtain ids where "option_ids opts = Inr ids" by auto
  ultimately show ?case by simp
qed

lemma valid_ids_ok: "wf_preg preg \<Longrightarrow> \<exists>valid. valid_ids preg = Inr valid"
  by (auto simp: wf_preg_def valid_ids_def option_ids_ok split: json.splits)

lemma filter_valid_ok: "list_all hashable oids \<Longrightarrow> \<exists>kept. filter_valid valid oids = Inr kept"
  by (induction oids) auto

lemma sanitize_tipo1_ok:
  assumes "wf_preg preg"
    and "dict_get kvs ''texto'' = JNull \<or> (\<exists>t. dict_get kvs ''texto'' = JStr t)"
  shows "\<exists>kvs1. sanitize_tipo1 tipo preg kvs = Inr kvs1"
  using assms
  by (auto simp: sanitize_tipo1_def wf_preg_def split: json.splits)

lemma sanitize_tipo3_ok:
  assumes "dict_get kvs ''opciones_ids'' = JNull \<or> (\<exists>oids. dict_get kvs ''opciones_ids'' = JList oids)"
  shows "\<exists>kvs3. sanitize_tipo3 tipo kvs = Inr kvs3"
proof -
  have g: "dict_get (dict_set kvs ''texto'' JNull) ''opciones_ids'' = dict_get kvs ''opciones_ids''"
    by (simp add: dict_get_set)
  from assms show ?thesis
  proof
    assume "dict_get kvs ''opciones_ids'' = JNull"
    then show ?thesis by (simp add: sanitize_tipo3_def Let_def g)
  next
    assume "\<exists>oids. dict_get kvs ''opciones_ids'' = JList oids"
    then obtain oids where o: "dict_get kvs ''opciones_ids'' = JList oids" by blast
    show ?thesis by (cases oids) (simp_all add: sanitize_tipo3_def Let_def g o)
  qed
qed

lemma sanitize_tipo4_ok:
  assumes "wf_preg preg"
    and "py_eq tipo (JInt 4) \<Longrightarrow>
         \<exists>oids. dict_get_default kvs ''opciones_ids'' (JList []) = JList oids \<and> list_all hashable oids"
  shows "\<exists>kvs4. sanitize_tipo4 tipo preg kvs = Inr kvs4"
proof (cases "py_eq tipo (JInt 4)")
  case False
  then show ?thesis by (simp add: sanitize_tipo4_def)
next
  case True
  from assms(2)[OF True] obtain oids where
    o: "dict_get_default kvs ''opciones_ids'' (JList []) = JList oids" and h: "list_all hashable oids"
    by blast
  from valid_ids_ok[OF assms(1)] obtain valid where v: "valid_ids preg = Inr valid" by blast
  from filter_valid_ok[OF h] obtain kept where k: "filter_valid valid oids = Inr kept" by blast
  show ?thesis using True o v k
    by (simp add: sanitize_tipo4_def Let_def dict_get_default_set)
qed


lemma resolve_id_qid:
  "dict_get (resolve_id kvs) ''pregunta_id'' =
     (if \<not> truthy (dict_get kvs ''pregunta_id'') \<and> truthy (dict_get kvs ''id'')
      then dict_get kvs ''id'' else dict_get kvs ''pregunta_id'')"
  by (simp add: resolve_id_def dict_get_set)

lemma dict_get_of_default:
  "dict_get kvs k = JNull \<or> dict_get kvs k = dict_get_default kvs k d"
  by (simp add: dict_get_def dict_get_default_def split: option.splits)

lemma sanitize_item_ok:
  assumes wf: "wf_answer item" and m: "\<forall>p \<in> snd ` set mapa. wf_question p"
  shows "\<exists>res. sanitize_item mapa item = Inr res \<and> (res \<noteq> None \<longleftrightarrow> resolves item)"
proof -
  from wf obtain kvs0 where item: "item = JDict kvs0"
    by (auto simp: wf_answer_def split: json.splits)
  let ?kvs = "resolve_id kvs0"
  let ?qid = "dict_get ?kvs ''pregunta_id''"
  let ?tipo = "dict_get kvs0 ''tipo_pregunta_id''"
  have t: "dict_get ?kvs ''tipo_pregunta_id'' = ?tipo" by (simp add: dict_get_resolve_id)
  from wf have hq: "hashable ?qid"
    by (simp add: wf_answer_def item resolve_id_qid)
  from wf have tx: "dict_get ?kvs ''texto'' = JNull \<or> (\<exists>t. dict_get ?kvs ''texto'' = JStr t)"
    by (auto simp: wf_answer_def item dict_get_resolve_id split: json.splits)
  from wf have od: "(\<exists>oids. dict_get_default kvs0 ''opciones_ids'' (JList []) = JList oids
                       \<and> list_all hashable oids)
                  \<or> (dict_get_default kvs0 ''opciones_ids'' (JList []) = JNull
                       \<and> \<not> py_eq ?tipo (JInt 4))"
    by (auto simp: wf_answer_def item split: json.splits)
  show ?thesis
  proof (cases "truthy ?qid")
    case False
    then show ?thesis by (simp add: sanitize_item_def item resolves_def)
  next
    case True
    from lookup_preg_wf[OF hq m] obtain preg where
      lk: "lookup_preg mapa ?qid = Inr preg" and wp: "wf_preg preg" by blast
    from sanitize_tipo1_ok[OF wp tx] obtain kvs1 where
      s1: "sanitize_tipo1 ?tipo preg ?kvs = Inr kvs1" by blast
    let ?kvs2 = "sanitize_tipo2 ?tipo kvs1"
    have o2: "dict_get ?kvs2 ''opciones_ids'' = dict_get kvs0 ''opciones_ids''"
      using sanitize_tipo1_keeps[OF s1, of "''opciones_ids''"]
      by (simp add: sanitize_tipo2_keeps dict_get_resolve_id)
    have "dict_get ?kvs2 ''opciones_ids'' = JNull
        \<or> (\<exists>oids. dict_get ?kvs2 ''opciones_ids'' = JList oids)"
      using od dict_get_of_default[of kvs0 "''opciones_ids''" "JList []"] by (auto simp: o2)
    from sanitize_tipo3_ok[OF this] obtain kvs3 where
      s3: "sanitize_tipo3 ?tipo ?kvs2 = Inr kvs3" by blast
    have o4: "\<exists>oids. dict_get_default kvs3 ''opciones_ids'' (JList []) = JList oids
                   \<and> list_all hashable oids"
      if t4: "py_eq ?tipo (JInt 4)"
    proof -
      note nt = py_eq_distinct_tipo(4)[OF t4]
      from s1 nt have "kvs1 = ?kvs" by (simp add: sanitize_tipo1_def)
      moreover from nt have "?kvs2 = kvs1" by (simp add: sanitize_tipo2_def)
      moreover from s3 nt have "kvs3 = ?kvs2" by (simp add: sanitize_tipo3_other)
      ultimately have "kvs3 = ?kvs" by simp
      then show ?thesis using od t4 by (auto simp: dict_get_default_resolve_id)
    qed
    from sanitize_tipo4_ok[OF wp o4] obtain kvs4 where
      s4: "sanitize_tipo4 ?tipo preg kvs3 = Inr kvs4" by blast
    show ?thesis using True lk s1 s3 s4
      by (simp add: sanitize_item_def item Let_def t resolves_def)
  qed
qed

lemma sanitize_loop_ok:
  assumes "list_all wf_answer items" and "\<forall>p \<in> snd ` set mapa. wf_question p"
  shows "\<exists>out. sanitize_loop mapa items dep = Inr out
             \<and> length out = length dep + length (filter resolves items)"
  using assms(1)
proof (induction items arbitrary: dep)
  case Nil
  then show ?case by simp
next
  case (Cons item items)
  from Cons.prems have wi: "wf_answer item" and wis: "list_all wf_answer items" by simp_all
  from sanitize_item_ok[OF wi assms(2)] obtain res where
    res: "sanitize_item mapa item = Inr res" and iff: "res \<noteq> None \<longleftrightarrow> resolves item" by blast
  show ?case
  proof (cases res)
    case None
    with Cons.IH[OF wis, of dep] res iff show ?thesis by simp
  next
    case (Some r)
    with Cons.IH[OF wis, of "dep @ [r]"] res iff show ?thesis by simp
  qed
qed


text \<open>
  C3, as the code has it. On a template and raw answers of the shape the code is written
  for (\<open>wf_plantilla\<close>, \<open>wf_data\<close>) \<open>sanitize_answers\<close> raises nothing and returns a value
  whose answer list has one entry for each input entry with a truthy \<open>pregunta_id\<close> or
  \<open>id\<close>; the other entries are left out.
\<close>

theorem sanitize_answers_total_on_typed_input:
  assumes "wf_plantilla plantilla" and "wf_data data"
  shows "\<exists>out. sanitize_answers data plantilla = Inr out
             \<and> (\<forall>items. py_get_default data ''respuestas_preguntas'' (JList []) = Inr (JList items)
                   \<longrightarrow> length (answers_of out) = length (filter resolves items))"
proof -
  from assms(1) obtain pk where pl: "plantilla = JDict pk"
    by (cases plantilla) (auto simp: wf_plantilla_def)
  with assms(1) obtain v where pv: "map_of pk ''preguntas'' = Some v"
    and wv: "case v of JList ps \<Rightarrow> list_all wf_question ps | _ \<Rightarrow> False"
    by (cases "map_of pk ''preguntas''") (auto simp: wf_plantilla_def)
  from wv obtain ps where v: "v = JList ps" and wps: "list_all wf_question ps"
    by (cases v) auto
  from pv v have pr: "map_of pk ''preguntas'' = Some (JList ps)" by simp
  from assms(2) obtain kvs items where
    d: "data = JDict kvs"
    and it: "dict_get_default kvs ''respuestas_preguntas'' (JList []) = JList items"
    and wis: "list_all wf_answer items"
    by (auto simp: wf_data_def split: json.splits)
  from build_mapa_wf[OF wps, of "[]"] obtain mapa where
    bm: "build_mapa ps [] = Inr mapa" and wm: "\<forall>p \<in> snd ` set mapa. wf_question p" by auto
  from sanitize_loop_ok[OF wis wm, of "[]"] obtain dep where
    lp: "sanitize_loop mapa items [] = Inr dep"
    and len: "length dep = length (filter resolves items)" by auto
  have "sanitize_answers data plantilla =
          Inr (JDict (dict_set kvs ''respuestas_preguntas'' (JList dep)))"
    by (simp add: sanitize_answers_def pl pr d it bm lp)
  then show ?thesis using len it by (simp add: d answers_of_set)
qed

theorem sanitize_answers_total_on_typed_input_witness:
  "wf_plantilla ex_plantilla \<and> wf_data ex_data
   \<and> (\<exists>out. sanitize_answers ex_data ex_plantilla = Inr out \<and> length (answers_of out) = 4)"
proof -
  have p: "wf_plantilla ex_plantilla" by code_simp
  have d: "wf_data ex_data" by code_simp
  have items: "py_get_default ex_data ''respuestas_preguntas'' (JList []) =
      Inr (JList [JDict ex_echo, JDict ex_numeric, JDict ex_single, JDict ex_multi,
                  JDict [(''texto'', JStr ''sin pregunta'')]])"
    by code_simp
  have n: "length (filter resolves [JDict ex_echo, JDict ex_numeric, JDict ex_single, JDict ex_multi,
                  JDict [(''texto'', JStr ''sin pregunta'')]]) = 4"
    by code_simp
  from sanitize_answers_total_on_typed_input [OF p d] obtain out where
    out: "sanitize_answers ex_data ex_plantilla = Inr out"
    and len: "\<forall>items. py_get_default ex_data ''respuestas_preguntas'' (JList []) = Inr (JList items)
                 \<longrightarrow> length (answers_of out) = length (filter resolves items)"
    by blast
  from len items n have "length (answers_of out) = 4" by simp
  with p d out show ?thesis by blast
qed

text \<open>Outside that shape the function raises: nothing in it catches an exception. A type 4
  answer with \<open>"opciones_ids": null\<close> is iterated at line 95, and a type 1 answer with a
  number as text is stripped at line 79.\<close>

theorem sanitize_answers_raises_counterexample:
  "sanitize_answers
     (JDict [(''respuestas_preguntas'',
        JList [JDict [(''pregunta_id'', JStr ''q4''), (''tipo_pregunta_id'', JInt 4),
                      (''opciones_ids'', JNull)]])]) ex_plantilla = Inl TypeError
   \<and> sanitize_answers
     (JDict [(''respuestas_preguntas'',
        JList [JDict [(''pregunta_id'', JStr ''q1''), (''tipo_pregunta_id'', JInt 1),
                      (''texto'', JInt 5)]])]) ex_plantilla = Inl AttributeError"
  by code_simp

section \<open>Properties of the payload builder\<close>

subsection \<open>The number\<close>










subsection \<open>Rows of a multiple-choice answer\<close>

lemma build_loop_append:
  "build_loop rs filas = (case build_loop rs [] of Inl e \<Rightarrow> Inl e | Inr out \<Rightarrow> Inr (filas @ out))"
proof (induction rs arbitrary: filas)
  case Nil
  then show ?case by simp
next
  case (Cons r rs)
  show ?case
  proof (cases "payload_rows r")
    case (Inl e)
    then show ?thesis by simp
  next
    case (Inr rows)
    then show ?thesis
      using Cons.IH[of "filas @ rows"] Cons.IH[of rows]
      by (simp split: sum.splits)
  qed
qed

text \<open>The rows of the payload are the rows of the answers, one answer after the other.\<close>

lemma build_loop_rows:
  "build_loop rs filas = Inr out \<Longrightarrow>
   \<exists>rowss. map payload_rows rs = map Inr rowss \<and> out = filas @ concat rowss"
proof (induction rs arbitrary: filas)
  case Nil
  then show ?case by simp
next
  case (Cons r rs)
  from Cons.prems obtain rows where rows: "payload_rows r = Inr rows"
    by (cases "payload_rows r") auto
  with Cons.prems have "build_loop rs (filas @ rows) = Inr out" by simp
  from Cons.IH[OF this] obtain rowss where
    "map payload_rows rs = map Inr rowss" "out = (filas @ rows) @ concat rowss" by blast
  with rows have "map payload_rows (r # rs) = map Inr (rows # rowss)
      \<and> out = filas @ concat (rows # rowss)" by simp
  then show ?case by blast
qed

lemma build_backend_payload_single:
  "payload_rows r = Inr rows \<Longrightarrow>
   build_backend_payload (JDict [(''respuestas_preguntas'', JList [r])]) =
     Inr (JDict [(''respuestas_preguntas'', JList rows)])"
  by (simp add: build_backend_payload_def dict_get_default_def)


text \<open>
  C2, as the code has it. For a normalized answer tagged as type 4, with the normalized id
  list \<open>ids\<close> and the base row \<open>base\<close>: when \<open>ids\<close> is not empty the builder emits one
  row per id, in order, each a copy of \<open>base\<close> with \<open>opcion_id\<close> set to that id, so as
  many rows as ids; when \<open>ids\<close> is empty it emits exactly one row, \<open>base\<close> itself
  (the \<open>else\<close> of line 117).
\<close>

theorem multi_choice_one_row_per_id:
  assumes run: "sanitize_item mapa (JDict kvs0) = Inr (Some r)"
    and tipo: "py_eq (dict_get kvs0 ''tipo_pregunta_id'') (JInt 4)"
  shows "\<exists>kvs ids base rows.
           r = JDict kvs
         \<and> dict_get kvs ''opciones_ids'' = JList ids
         \<and> base = base_row kvs (dict_get kvs ''pregunta_id'')
         \<and> rows = (if ids = [] then [JDict base]
                    else map (\<lambda>oid. JDict (dict_set base ''opcion_id'' oid)) ids)
         \<and> length rows = (if ids = [] then 1 else length ids)
         \<and> payload_rows r = Inr rows
         \<and> build_backend_payload (JDict [(''respuestas_preguntas'', JList [r])]) =
             Inr (JDict [(''respuestas_preguntas'', JList rows)])"
proof -
  let ?tipo = "dict_get kvs0 ''tipo_pregunta_id''"
  from run obtain preg kvs1 kvs3 kvs where
    q: "truthy (dict_get (resolve_id kvs0) ''pregunta_id'')"
    and s1: "sanitize_tipo1 ?tipo preg (resolve_id kvs0) = Inr kvs1"
    and s3: "sanitize_tipo3 ?tipo (sanitize_tipo2 ?tipo kvs1) = Inr kvs3"
    and s4: "sanitize_tipo4 ?tipo preg kvs3 = Inr kvs"
    and r: "r = JDict kvs"
    by (rule sanitize_item_steps)
  from sanitize_tipo4_clears[OF s4 tipo] obtain ids where
    ids: "dict_get kvs ''opciones_ids'' = JList ids" by blast
  have "dict_get kvs ''pregunta_id'' = dict_get (resolve_id kvs0) ''pregunta_id''"
    using sanitize_tipo4_keeps[OF s4, of "''pregunta_id''"]
      sanitize_tipo3_keeps[OF s3, of "''pregunta_id''"]
      sanitize_tipo1_keeps[OF s1, of "''pregunta_id''"]
    by (simp add: sanitize_tipo2_keeps)
  with q have "truthy (dict_get kvs ''pregunta_id'')" by simp
  then have qid: "map_of kvs ''pregunta_id'' = Some (dict_get kvs ''pregunta_id'')"
    by (auto simp: dict_get_def split: option.splits)
  define base where "base = base_row kvs (dict_get kvs ''pregunta_id'')"
  define rows where "rows = (if ids = [] then [JDict base]
                    else map (\<lambda>oid. JDict (dict_set base ''opcion_id'' oid)) ids)"
  have pr: "payload_rows r = Inr rows"
    by (simp add: payload_rows_def r qid ids Let_def rows_def base_def)
  have len: "length rows = (if ids = [] then 1 else length ids)"
    by (simp add: rows_def)
  from build_backend_payload_single[OF pr] pr len r ids base_def rows_def
  show ?thesis by blast
qed

theorem multi_choice_one_row_per_id_witness:
  "sanitize_item ex_mapa (JDict ex_multi) =
     Inr (Some (JDict [(''pregunta_id'', JStr ''q4''), (''tipo_pregunta_id'', JInt 4),
                       (''texto'', JNull), (''opciones_ids'', JList [JStr ''B'', JStr ''A''])]))
   \<and> build_backend_payload (JDict [(''respuestas_preguntas'',
        JList [JDict [(''pregunta_id'', JStr ''q4''), (''tipo_pregunta_id'', JInt 4),
                      (''texto'', JNull), (''opciones_ids'', JList [JStr ''B'', JStr ''A''])]])]) =
       Inr (JDict [(''respuestas_preguntas'',
         JList [JDict [(''pregunta_id'', JStr ''q4''), (''opcion_id'', JStr ''B'')],
                JDict [(''pregunta_id'', JStr ''q4''), (''opcion_id'', JStr ''A'')]])])
   \<and> (\<exists>kvs ids base rows.
         JDict [(''pregunta_id'', JStr ''q4''), (''tipo_pregunta_id'', JInt 4),
                (''texto'', JNull), (''opciones_ids'', JList [JStr ''B'', JStr ''A''])] = JDict kvs
       \<and> dict_get kvs ''opciones_ids'' = JList ids
       \<and> base = base_row kvs (dict_get kvs ''pregunta_id'')
       \<and> rows = (if ids = [] then [JDict base]
                  else map (\<lambda>oid. JDict (dict_set base ''opcion_id'' oid)) ids)
       \<and> length rows = (if ids = [] then 1 else length ids)
       \<and> payload_rows (JDict kvs) = Inr rows)"
proof -
  have run: "sanitize_item ex_mapa (JDict ex_multi) =
     Inr (Some (JDict [(''pregunta_id'', JStr ''q4''), (''tipo_pregunta_id'', JInt 4),
                       (''texto'', JNull), (''opciones_ids'', JList [JStr ''B'', JStr ''A''])]))"
    by code_simp
  have tipo: "py_eq (dict_get ex_multi ''tipo_pregunta_id'') (JInt 4)"
    by code_simp
  have out: "build_backend_payload (JDict [(''respuestas_preguntas'',
        JList [JDict [(''pregunta_id'', JStr ''q4''), (''tipo_pregunta_id'', JInt 4),
                      (''texto'', JNull), (''opciones_ids'', JList [JStr ''B'', JStr ''A''])]])]) =
       Inr (JDict [(''respuestas_preguntas'',
         JList [JDict [(''pregunta_id'', JStr ''q4''), (''opcion_id'', JStr ''B'')],
                JDict [(''pregunta_id'', JStr ''q4''), (''opcion_id'', JStr ''A'')]])])"
    by code_simp
  from multi_choice_one_row_per_id [OF run tipo] obtain kvs ids base rows where
    "JDict [(''pregunta_id'', JStr ''q4''), (''tipo_pregunta_id'', JInt 4),
            (''texto'', JNull), (''opciones_ids'', JList [JStr ''B'', JStr ''A''])] = JDict kvs"
    "dict_get kvs ''opciones_ids'' = JList ids"
    "base = base_row kvs (dict_get kvs ''pregunta_id'')"
    "rows = (if ids = [] then [JDict base]
             else map (\<lambda>oid. JDict (dict_set base ''opcion_id'' oid)) ids)"
    "length rows = (if ids = [] then 1 else length ids)"
    "payload_rows (JDict kvs) = Inr rows"
    by blast
  with run out show ?thesis by blast
qed

text \<open>With every offered id unknown to the question the normalized list is empty, and the
  builder still emits a row: one row for a list of length zero.\<close>

theorem multi_choice_empty_list_counterexample:
  "py_eq (dict_get ex_multi_none ''tipo_pregunta_id'') (JInt 4)
   \<and> sanitize_item ex_mapa (JDict ex_multi_none) = Inr (Some (JDict ex_multi_none_out))
   \<and> dict_get ex_multi_none_out ''opciones_ids'' = JList []
   \<and> payload_rows (JDict ex_multi_none_out) = Inr [JDict [(''pregunta_id'', JStr ''q4'')]]
   \<and> build_backend_payload (JDict [(''respuestas_preguntas'', JList [JDict ex_multi_none_out])]) =
       Inr (JDict [(''respuestas_preguntas'', JList [JDict [(''pregunta_id'', JStr ''q4'')]])])"
  by code_simp

section \<open>Properties of \<open>POST /stt\<close>\<close>

subsection \<open>Status 400\<close>







subsection \<open>A failed submission\<close>




end
